theory Spec2Isabelle
  imports Complex_Main "HOL-Library.Sublist"
begin

section \<open>JavaScript values as the code sees them\<close>

text \<open>
  \<^verbatim>\<open>response.json()\<close> yields an untyped value (\<^verbatim>\<open>any\<close>); every field access of
  \<^verbatim>\<open>fetchWeather\<close> is an access on such a value. Objects are association lists of their own
  properties (the first binding of a key is the one that is read). Numbers are exact
  rationals: the binary rounding of IEEE doubles is not part of the model. Strings are lists
  of 8-bit characters, each standing for one code unit below 256.
\<close>

datatype json =
    JUndefined
  | JNull
  | JBool bool
  | JNum rat
  | JStr string
  | JArr "json list"
  | JObj "(string \<times> json) list"

text \<open>A JavaScript number: a rational, or \<^verbatim>\<open>NaN\<close>.\<close>

datatype number = NaN | Num rat

text \<open>What the \<^verbatim>\<open>try\<close> block can throw.\<close>

datatype exn =
    TypeError
  | SyntaxError
  | NetworkError
  | Error string

definition bindE :: "exn + 'a \<Rightarrow> ('a \<Rightarrow> exn + 'b) \<Rightarrow> exn + 'b" where
  "bindE m f = (case m of Inl e \<Rightarrow> Inl e | Inr v \<Rightarrow> f v)"

text \<open>
  \<^verbatim>\<open>v.k\<close> for the keys the code reads (\<^verbatim>\<open>list\<close>, \<^verbatim>\<open>main\<close>, \<^verbatim>\<open>temp\<close>, \<^verbatim>\<open>dt\<close>, ...; none of
  them is a property of a built-in prototype): a \<^verbatim>\<open>TypeError\<close> on \<^verbatim>\<open>undefined\<close> and
  \<^verbatim>\<open>null\<close>, the own property of an object, \<^verbatim>\<open>undefined\<close> otherwise.
\<close>

fun getProp :: "json \<Rightarrow> string \<Rightarrow> exn + json" where
  "getProp JUndefined k = Inl TypeError"
| "getProp JNull k = Inl TypeError"
| "getProp (JObj kvs) k = Inr (case map_of kvs k of None \<Rightarrow> JUndefined | Some v \<Rightarrow> v)"
| "getProp v k = Inr JUndefined"

text \<open>\<^verbatim>\<open>v[0]\<close>: the first element of an array, the first character of a string, the
  property \<^verbatim>\<open>"0"\<close> of an object.\<close>

fun getIndex0 :: "json \<Rightarrow> exn + json" where
  "getIndex0 JUndefined = Inl TypeError"
| "getIndex0 JNull = Inl TypeError"
| "getIndex0 (JArr xs) = Inr (case xs of [] \<Rightarrow> JUndefined | x # _ \<Rightarrow> x)"
| "getIndex0 (JStr s) = Inr (case s of [] \<Rightarrow> JUndefined | c # _ \<Rightarrow> JStr [c])"
| "getIndex0 (JObj kvs) = Inr (case map_of kvs ''0'' of None \<Rightarrow> JUndefined | Some v \<Rightarrow> v)"
| "getIndex0 v = Inr JUndefined"

text \<open>\<^verbatim>\<open>for (const item of v)\<close>: arrays and strings are iterable, nothing else that
  JSON can hold is.\<close>

fun iterate :: "json \<Rightarrow> exn + json list" where
  "iterate (JArr xs) = Inr xs"
| "iterate (JStr s) = Inr (map (\<lambda>c. JStr [c]) s)"
| "iterate v = Inl TypeError"

section \<open>The runtime environment\<close>

text \<open>
  What the code takes from its surroundings: the API key of the build (as the template
  literal of line 54 renders it), the offset of the
  viewer's time zone (milliseconds to add to a UTC time value, possibly varying with it), the
  default locale's rendering of a local day (days since 1 January 1970), and the numeric
  conversion of strings, arrays and objects, which ECMAScript routes through string parsing.
\<close>

record env =
  API_KEY :: string
  LocalTZA :: "int \<Rightarrow> int"
  localeDate :: "int \<Rightarrow> string"
  coerce :: "json \<Rightarrow> number"

fun ToNumber :: "env \<Rightarrow> json \<Rightarrow> number" where
  "ToNumber E JUndefined = NaN"
| "ToNumber E JNull = Num 0"
| "ToNumber E (JBool b) = Num (if b then 1 else 0)"
| "ToNumber E (JNum r) = Num r"
| "ToNumber E v = coerce E v"

definition Math_round :: "number \<Rightarrow> number" where
  "Math_round x = (case x of NaN \<Rightarrow> NaN | Num r \<Rightarrow> Num (of_int \<lfloor>r + 1 / 2\<rfloor>))"

definition times :: "number \<Rightarrow> rat \<Rightarrow> number" where
  "times x c = (case x of NaN \<Rightarrow> NaN | Num r \<Rightarrow> Num (r * c))"

definition divide_by :: "number \<Rightarrow> rat \<Rightarrow> number" where
  "divide_by x c = (case x of NaN \<Rightarrow> NaN | Num r \<Rightarrow> Num (r / c))"

subsection \<open>Dates\<close>

text \<open>A \<^verbatim>\<open>Date\<close> is its time value in milliseconds, or invalid (\<open>None\<close>).\<close>

definition msPerDay :: int where "msPerDay = 86400000"
definition msPerHour :: int where "msPerHour = 3600000"

definition toInteger :: "rat \<Rightarrow> int" where
  "toInteger r = (if 0 \<le> r then \<lfloor>r\<rfloor> else \<lceil>r\<rceil>)"

definition newDate :: "number \<Rightarrow> int option" where
  "newDate x =
     (case x of NaN \<Rightarrow> None
      | Num r \<Rightarrow> if \<bar>r\<bar> > 8640000000000000 then None else Some (toInteger r))"

definition LocalTime :: "env \<Rightarrow> int \<Rightarrow> int" where
  "LocalTime E t = t + LocalTZA E t"

definition localDay :: "env \<Rightarrow> int \<Rightarrow> int" where
  "localDay E t = LocalTime E t div msPerDay"

definition localHour :: "env \<Rightarrow> int \<Rightarrow> int" where
  "localHour E t = (LocalTime E t div msPerHour) mod 24"

definition getHours :: "env \<Rightarrow> int option \<Rightarrow> number" where
  "getHours E d = (case d of None \<Rightarrow> NaN | Some t \<Rightarrow> Num (of_int (localHour E t)))"

definition toLocaleDateString :: "env \<Rightarrow> int option \<Rightarrow> string" where
  "toLocaleDateString E d =
     (case d of None \<Rightarrow> ''Invalid Date'' | Some t \<Rightarrow> localeDate E (localDay E t))"

text \<open>
  The civil date of a day number in the proleptic Gregorian calendar, as (year, month,
  day of month), and the day of the week (0 is Sunday; 1 January 1970 was a Thursday).
\<close>

definition civil :: "int \<Rightarrow> int \<times> int \<times> int" where
  "civil z0 =
     (let z = z0 + 719468;
          era = z div 146097;
          doe = z - era * 146097;
          yoe = (doe - doe div 1460 + doe div 36524 - doe div 146096) div 365;
          doy = doe - (365 * yoe + yoe div 4 - yoe div 100);
          mp = (5 * doy + 2) div 153;
          d = doy - (153 * mp + 2) div 5 + 1;
          m = (if mp < 10 then mp + 3 else mp - 9);
          y = yoe + era * 400 + (if m \<le> 2 then 1 else 0)
      in (y, m, d))"

definition weekDay :: "int \<Rightarrow> int" where
  "weekDay z = (z + 4) mod 7"

fun showNat :: "nat \<Rightarrow> string" where
  "showNat n =
     (if n < 10 then [char_of (48 + n)]
      else showNat (n div 10) @ [char_of (48 + n mod 10)])"

declare showNat.simps [simp del]

definition weekdayShort :: "int \<Rightarrow> string" where
  "weekdayShort w = [''Sun'', ''Mon'', ''Tue'', ''Wed'', ''Thu'', ''Fri'', ''Sat''] ! nat w"

definition monthShort :: "int \<Rightarrow> string" where
  "monthShort m =
     [''Jan'', ''Feb'', ''Mar'', ''Apr'', ''May'', ''Jun'',
      ''Jul'', ''Aug'', ''Sep'', ''Oct'', ''Nov'', ''Dec''] ! nat (m - 1)"

text \<open>\<^verbatim>\<open>toLocaleDateString('en-US', { weekday: 'short', month: 'short', day: 'numeric' })\<close>,
  for instance \<^verbatim>\<open>Thu, Jan 1\<close>.\<close>

definition enUS_short :: "int \<Rightarrow> string" where
  "enUS_short z =
     (case civil z of (y, m, d) \<Rightarrow>
        weekdayShort (weekDay z) @ '', '' @ monthShort m @ '' '' @ showNat (nat d))"

definition toLocaleDateString_short :: "env \<Rightarrow> int option \<Rightarrow> string" where
  "toLocaleDateString_short E d =
     (case d of None \<Rightarrow> ''Invalid Date'' | Some t \<Rightarrow> enUS_short (localDay E t))"

section \<open>The data of the application\<close>

text \<open>\<^verbatim>\<open>WeatherData\<close> (App.tsx, lines 4 to 21). The fields hold whatever the response
  held: the interface is not checked at run time.\<close>

record current_t =
  temp :: number
  feelsLike :: number
  condition :: json
  humidity :: json
  windSpeed :: number
  pressure :: json
  visibility :: number

record forecast_t =
  date :: string
  high :: number
  low :: number
  day_condition :: json

record WeatherData =
  data_city :: json
  current :: current_t
  forecast :: "forecast_t list"

section \<open>Processing a response (App.tsx, lines 63 to 99)\<close>

text \<open>\<^verbatim>\<open>data.list[0]\<close>, evaluated anew by each line that reads it.\<close>

definition list0 :: "json \<Rightarrow> exn + json" where
  "list0 data = bindE (getProp data ''list'') getIndex0"

text \<open>\<^verbatim>\<open>v.main.k\<close>\<close>

definition mainField :: "json \<Rightarrow> string \<Rightarrow> exn + json" where
  "mainField v k = bindE (getProp v ''main'') (\<lambda>m. getProp m k)"

text \<open>\<^verbatim>\<open>v.weather[0].main\<close>\<close>

definition weatherMain :: "json \<Rightarrow> exn + json" where
  "weatherMain v =
     bindE (getProp v ''weather'') (\<lambda>w. bindE (getIndex0 w) (\<lambda>w0. getProp w0 ''main''))"

text \<open>Lines 64 to 72, the fields in the order of the object literal.\<close>

definition processCurrent :: "env \<Rightarrow> json \<Rightarrow> exn + current_t" where
  "processCurrent E data =
     bindE (bindE (list0 data) (\<lambda>i. mainField i ''temp'')) (\<lambda>t.
     bindE (bindE (list0 data) (\<lambda>i. mainField i ''feels_like'')) (\<lambda>f.
     bindE (bindE (list0 data) weatherMain) (\<lambda>c.
     bindE (bindE (list0 data) (\<lambda>i. mainField i ''humidity'')) (\<lambda>h.
     bindE (bindE (list0 data) (\<lambda>i. bindE (getProp i ''wind'') (\<lambda>w. getProp w ''speed''))) (\<lambda>s.
     bindE (bindE (list0 data) (\<lambda>i. mainField i ''pressure'')) (\<lambda>p.
     bindE (bindE (list0 data) (\<lambda>i. getProp i ''visibility'')) (\<lambda>v.
       Inr \<lparr>temp = Math_round (ToNumber E t),
            feelsLike = Math_round (ToNumber E f),
            condition = c,
            humidity = h,
            windSpeed = Math_round (times (ToNumber E s) (36 / 10)),
            pressure = p,
            visibility = Math_round (divide_by (ToNumber E v) 1000)\<rparr>)))))))"

text \<open>Line 79: \<^verbatim>\<open>new Date(item.dt * 1000)\<close>.\<close>

definition itemDate :: "env \<Rightarrow> json \<Rightarrow> exn + int option" where
  "itemDate E item = bindE (getProp item ''dt'') (\<lambda>dt. Inr (newDate (times (ToNumber E dt) 1000)))"

text \<open>Lines 84 to 89: the entry pushed for a selected item.\<close>

definition forecastEntry :: "env \<Rightarrow> int option \<Rightarrow> json \<Rightarrow> exn + forecast_t" where
  "forecastEntry E d item =
     bindE (mainField item ''temp_max'') (\<lambda>hi.
     bindE (mainField item ''temp_min'') (\<lambda>lo.
     bindE (weatherMain item) (\<lambda>c.
       Inr \<lparr>date = toLocaleDateString_short E d,
            high = Math_round (ToNumber E hi),
            low = Math_round (ToNumber E lo),
            day_condition = c\<rparr>)))"

text \<open>
  Lines 78 to 93: the loop over \<^verbatim>\<open>data.list\<close>, with its two local variables
  \<^verbatim>\<open>forecast\<close> (here \<open>fcast\<close>) and \<^verbatim>\<open>processedDates\<close> as accumulators. The loop ends at the end of the
  list or at the \<^verbatim>\<open>break\<close>.
\<close>

fun forecastLoop ::
  "env \<Rightarrow> json list \<Rightarrow> forecast_t list \<Rightarrow> string set \<Rightarrow> exn + forecast_t list" where
  "forecastLoop E [] fcast processedDates = Inr fcast"
| "forecastLoop E (item # rest) fcast processedDates =
     bindE (itemDate E item) (\<lambda>d.
       let dateStr = toLocaleDateString E d in
       if dateStr \<notin> processedDates \<and> getHours E d = Num 12 then
         bindE (forecastEntry E d item) (\<lambda>entry.
           let fcast' = fcast @ [entry] in
           if length fcast' = 3 then Inr fcast'
           else forecastLoop E rest fcast' (insert dateStr processedDates))
       else forecastLoop E rest fcast processedDates)"

text \<open>Lines 75 to 93: the loop from its initial variables.\<close>

definition processForecast :: "env \<Rightarrow> json \<Rightarrow> exn + forecast_t list" where
  "processForecast E data =
     bindE (getProp data ''list'') (\<lambda>l. bindE (iterate l) (\<lambda>items. forecastLoop E items [] {}))"

text \<open>Lines 63 to 99: the value handed to \<^verbatim>\<open>setWeather\<close>.\<close>

definition processResponse :: "env \<Rightarrow> json \<Rightarrow> exn + WeatherData" where
  "processResponse E data =
     bindE (processCurrent E data) (\<lambda>cur.
     bindE (processForecast E data) (\<lambda>fc.
     bindE (bindE (getProp data ''city'') (\<lambda>c. getProp c ''name'')) (\<lambda>n.
       Inr \<lparr>data_city = n, current = cur, forecast = fc\<rparr>)))"

section \<open>The query state and \<^verbatim>\<open>fetchWeather\<close> (App.tsx, lines 38 to 106)\<close>

text \<open>The four \<^verbatim>\<open>useState\<close> variables of \<^verbatim>\<open>App\<close>.\<close>

record state =
  city :: string
  weather :: "WeatherData option"
  loading :: bool
  error :: string

text \<open>
  \<^verbatim>\<open>String.prototype.trim\<close> removes white space and line terminators from both ends; among
  the code units below 256 these are TAB, LF, VT, FF, CR, SP and NBSP.
\<close>

definition isWhiteSpace :: "char \<Rightarrow> bool" where
  "isWhiteSpace c \<longleftrightarrow> of_char c \<in> {9, 10, 11, 12, 13, 32, 160 :: nat}"

definition trim :: "string \<Rightarrow> string" where
  "trim s = rev (dropWhile isWhiteSpace (rev (dropWhile isWhiteSpace s)))"

text \<open>
  How the \<^verbatim>\<open>fetch\<close> of line 53 comes back: the promise rejects, or it resolves to a
  response with its \<^verbatim>\<open>ok\<close> flag and the outcome of \<^verbatim>\<open>response.json()\<close> (\<open>None\<close> when the
  body is not JSON).
\<close>

datatype fetch_result = Rejected | Response bool "json option"

definition requestURL :: "env \<Rightarrow> state \<Rightarrow> string" where
  "requestURL E st =
     ''https://api.openweathermap.org/data/2.5/forecast?q='' @ city st
       @ ''&units=metric&appid='' @ API_KEY E"

text \<open>Lines 57 to 99: what the \<^verbatim>\<open>try\<close> block does with the outcome of the fetch.\<close>

fun tryBlock :: "env \<Rightarrow> fetch_result \<Rightarrow> exn + WeatherData" where
  "tryBlock E Rejected = Inl NetworkError"
| "tryBlock E (Response ok body) =
     (if \<not> ok then Inl (Error ''City not found'')
      else case body of None \<Rightarrow> Inl SyntaxError | Some data \<Rightarrow> processResponse E data)"

definition errorMessage :: string where
  "errorMessage = ''Unable to fetch weather data. Please check the city name and try again.''"

text \<open>
  One call of \<^verbatim>\<open>fetchWeather\<close>: the requests it issues, the states after each setter
  called before the \<^verbatim>\<open>await\<close> (lines 47 and 48), and the states after each setter called
  once the fetch has settled (line 95, or lines 101 and 102, then line 104). The network is a
  function from the URL to the outcome of the fetch. \<^verbatim>\<open>e.preventDefault()\<close> acts on the
  event alone and is left out.
\<close>

record run =
  requests :: "string list"
  before_await :: "state list"
  after_await :: "state list"

definition fetchWeather :: "env \<Rightarrow> (string \<Rightarrow> fetch_result) \<Rightarrow> state \<Rightarrow> run" where
  "fetchWeather E net st =
     (if trim (city st) = [] then \<lparr>requests = [], before_await = [], after_await = []\<rparr>
      else
        let s1 = st\<lparr>loading := True\<rparr>;
            s2 = s1\<lparr>error := ''''\<rparr>;
            url = requestURL E st;
            settled =
              (case tryBlock E (net url) of
                 Inr w \<Rightarrow> [s2\<lparr>weather := Some w\<rparr>]
               | Inl err \<Rightarrow> [s2\<lparr>error := errorMessage\<rparr>,
                            s2\<lparr>error := errorMessage, weather := None\<rparr>])
        in \<lparr>requests = [url], before_await = [s1, s2],
            after_await = settled @ [(last settled)\<lparr>loading := False\<rparr>]\<rparr>)"

text \<open>The state the call leaves behind, and the state shown while the request is pending.\<close>

definition final :: "state \<Rightarrow> run \<Rightarrow> state" where
  "final st r = last (st # before_await r @ after_await r)"


section \<open>\<^verbatim>\<open>WeatherIcon\<close> (App.tsx, lines 23 to 35)\<close>

datatype icon = CloudRain | Cloud | CloudSnow | Sun

text \<open>\<^verbatim>\<open>toLowerCase\<close> on code units below 256: A to Z, and the accented capitals of
  Latin-1 (all of 192 to 222 but the multiplication sign 215).\<close>

definition lowerChar :: "char \<Rightarrow> char" where
  "lowerChar c =
     (let n = of_char c :: nat in
      if (65 \<le> n \<and> n \<le> 90) \<or> (192 \<le> n \<and> n \<le> 222 \<and> n \<noteq> 215) then char_of (n + 32) else c)"

definition toLowerCase :: "string \<Rightarrow> string" where
  "toLowerCase s = map lowerChar s"

text \<open>\<^verbatim>\<open>s.includes(sub)\<close>: \<open>sub\<close> starts at some position of \<open>s\<close>.\<close>

fun includes_str :: "string \<Rightarrow> string \<Rightarrow> bool" where
  "includes_str [] sub = (sub = [])"
| "includes_str (c # cs) sub = (prefix sub (c # cs) \<or> includes_str cs sub)"

definition WeatherIcon :: "string \<Rightarrow> icon" where
  "WeatherIcon cond =
     (let lower = toLowerCase cond in
      if includes_str lower ''rain'' \<or> includes_str lower ''drizzle'' then CloudRain
      else if includes_str lower ''cloud'' then Cloud
      else if includes_str lower ''snow'' then CloudSnow
      else Sun)"

section \<open>Well-formed responses\<close>

text \<open>
  A sample of the provider's feed with every field the code reads, of the expected type, and
  the response body that carries a city name and a list of such samples.
\<close>

record sample =
  dt :: int
  main_temp :: rat
  main_feels_like :: rat
  main_temp_max :: rat
  main_temp_min :: rat
  main_humidity :: rat
  main_pressure :: rat
  weather_main :: string
  wind_speed :: rat
  visibility_m :: rat

definition encode :: "sample \<Rightarrow> json" where
  "encode s =
     JObj [(''dt'', JNum (of_int (dt s))),
           (''main'', JObj [(''temp'', JNum (main_temp s)),
                            (''feels_like'', JNum (main_feels_like s)),
                            (''temp_min'', JNum (main_temp_min s)),
                            (''temp_max'', JNum (main_temp_max s)),
                            (''pressure'', JNum (main_pressure s)),
                            (''humidity'', JNum (main_humidity s))]),
           (''weather'', JArr [JObj [(''main'', JStr (weather_main s))]]),
           (''wind'', JObj [(''speed'', JNum (wind_speed s))]),
           (''visibility'', JNum (visibility_m s))]"

definition encodeBody :: "string \<Rightarrow> sample list \<Rightarrow> json" where
  "encodeBody name samples =
     JObj [(''list'', JArr (map encode samples)), (''city'', JObj [(''name'', JStr name)])]"

subsection \<open>The reduction as the specification words it\<close>






definition currentOf :: "sample \<Rightarrow> current_t" where
  "currentOf s =
     \<lparr>temp = Num (of_int (round (main_temp s))),
      feelsLike = Num (of_int (round (main_feels_like s))),
      condition = JStr (weather_main s),
      humidity = JNum (main_humidity s),
      windSpeed = Num (of_int (round (wind_speed s * (36 / 10)))),
      pressure = JNum (main_pressure s),
      visibility = Num (of_int (round (visibility_m s / 1000)))\<rparr>"

subsection \<open>A concrete environment and concrete samples\<close>

text \<open>A viewer in UTC whose default locale is en-US (\<^verbatim>\<open>1/2/1970\<close>). The conversion of
  strings, arrays and objects to numbers is not exercised by the inputs below.\<close>

definition enUS_numeric :: "int \<Rightarrow> string" where
  "enUS_numeric z =
     (case civil z of (y, m, d) \<Rightarrow>
        showNat (nat m) @ ''/'' @ showNat (nat d) @ ''/'' @ showNat (nat y))"

definition env_utc :: env where
  "env_utc = \<lparr>API_KEY = ''key'', LocalTZA = (\<lambda>t. 0), localeDate = enUS_numeric,
              coerce = (\<lambda>v. NaN)\<rparr>"

text \<open>A sample at the given hour of the given day (days since 1 January 1970).\<close>

definition sampleAt :: "int \<Rightarrow> int \<Rightarrow> string \<Rightarrow> sample" where
  "sampleAt day hour cond =
     \<lparr>dt = day * 86400 + hour * 3600,
      main_temp = 37 / 2, main_feels_like = 87 / 5,
      main_temp_max = 41 / 2, main_temp_min = 127 / 10,
      main_humidity = 64, main_pressure = 1013,
      weather_main = cond, wind_speed = 5 / 2, visibility_m = 9600\<rparr>"

text \<open>A feed in chronological order, and two samples with the later day first.\<close>

definition feed :: "sample list" where
  "feed = [sampleAt 0 9 ''Clouds'', sampleAt 0 12 ''Rain'', sampleAt 0 12 ''Snow'',
           sampleAt 0 15 ''Clear'', sampleAt 1 12 ''Clear'', sampleAt 2 13 ''Rain'',
           sampleAt 3 12 ''Clouds'', sampleAt 4 12 ''Snow'']"


text \<open>An object without one of its properties.\<close>

fun withoutKey :: "string \<Rightarrow> json \<Rightarrow> json" where
  "withoutKey k (JObj kvs) = JObj (filter (\<lambda>kv. fst kv \<noteq> k) kvs)"
| "withoutKey k v = v"

text \<open>
  Two bodies with an entry that lacks the \<^verbatim>\<open>weather\<close> field: the first entry of the list,
  and a later entry at 15:00, which the loop does not select.
\<close>

definition body_first_lacks_weather :: json where
  "body_first_lacks_weather =
     JObj [(''list'', JArr [withoutKey ''weather'' (encode (sampleAt 0 9 ''Clouds'')),
                            encode (sampleAt 0 12 ''Rain'')]),
           (''city'', JObj [(''name'', JStr ''Oslo'')])]"

definition body_later_lacks_weather :: json where
  "body_later_lacks_weather =
     JObj [(''list'', JArr [encode (sampleAt 0 9 ''Clouds''),
                            withoutKey ''weather'' (encode (sampleAt 0 15 ''Rain''))]),
           (''city'', JObj [(''name'', JStr ''Oslo'')])]"

text \<open>The state after an earlier successful query, and a state whose input is blank.\<close>

definition prior_result :: WeatherData where
  "prior_result =
     \<lparr>data_city = JStr ''Bergen'',
      current = currentOf (sampleAt 0 9 ''Rain''),
      forecast = []\<rparr>"

definition st_shown :: state where
  "st_shown = \<lparr>city = ''Oslo'', weather = Some prior_result, loading = False, error = ''''\<rparr>"

definition st_blank :: state where
  "st_blank = \<lparr>city = [CHR '' '', CHR 0x09, CHR 0xA0], weather = Some prior_result,
               loading = False, error = ''''\<rparr>"


section \<open>Reading a well-formed response\<close>

lemma bindE_Inr: "bindE (Inr v) f = f v"
  by (simp add: bindE_def)

lemma bindE_Inl: "bindE (Inl e) f = Inl e"
  by (simp add: bindE_def)









section \<open>The loop against the selection rule\<close>





subsection \<open>Properties of the selection rule\<close>









section \<open>How a call of \<^verbatim>\<open>fetchWeather\<close> settles\<close>

text \<open>Whatever the \<^verbatim>\<open>try\<close> block throws, the \<^verbatim>\<open>catch\<close> and \<^verbatim>\<open>finally\<close> blocks leave the
  fixed message, no result and no request in flight; a result is stored with an empty error.\<close>

lemma final_failure:
  assumes "trim (city st) \<noteq> []" and "tryBlock E (net (requestURL E st)) = Inl e"
  shows "final st (fetchWeather E net st) =
           st\<lparr>loading := False, error := errorMessage, weather := None\<rparr>"
  using assms by (simp add: fetchWeather_def final_def Let_def)

lemma final_success:
  assumes "trim (city st) \<noteq> []" and "tryBlock E (net (requestURL E st)) = Inr w"
  shows "final st (fetchWeather E net st) =
           st\<lparr>loading := False, error := '''', weather := Some w\<rparr>"
  using assms by (simp add: fetchWeather_def final_def Let_def)

lemma trim_st_shown: "trim (city st_shown) \<noteq> []"
  by code_simp

text \<open>Reading a field of the first sample when the list is empty, or the first condition
  of a sample that has no \<^verbatim>\<open>weather\<close>, throws.\<close>

lemma list0_empty:
  assumes "getProp data ''list'' = Inr (JArr [])"
  shows "list0 data = Inr JUndefined"
  using assms by (simp add: list0_def bindE_Inr)

lemma processCurrent_undefined:
  assumes "list0 data = Inr JUndefined"
  shows "processCurrent E data = Inl TypeError"
  using assms by (simp add: processCurrent_def bindE_Inr bindE_Inl mainField_def)

lemma processCurrent_no_weather:
  assumes "list0 data = Inr item" and "getProp item ''weather'' = Inr JUndefined"
  shows "\<exists>e. processCurrent E data = Inl e"
proof (cases "mainField item ''temp''")
  case (Inl e)
  then show ?thesis using assms by (simp add: processCurrent_def bindE_Inr bindE_Inl)
next
  case t: (Inr t)
  show ?thesis
  proof (cases "mainField item ''feels_like''")
    case (Inl e)
    then show ?thesis using assms t by (simp add: processCurrent_def bindE_Inr bindE_Inl)
  next
    case (Inr f)
    then show ?thesis
      using assms t by (simp add: processCurrent_def bindE_Inr bindE_Inl weatherMain_def)
  qed
qed

subsection \<open>Blank input and substring tests\<close>

lemma dropWhile_all_imp_Nil:
  assumes "\<forall>x \<in> set (dropWhile P xs). P x"
  shows "dropWhile P xs = []"
proof (rule ccontr)
  assume "dropWhile P xs \<noteq> []"
  then have "\<not> P (hd (dropWhile P xs))" and "hd (dropWhile P xs) \<in> set (dropWhile P xs)"
    by (simp_all add: hd_dropWhile)
  with assms show False by blast
qed

lemma trim_empty_iff: "trim s = [] \<longleftrightarrow> (\<forall>c \<in> set s. isWhiteSpace c)"
proof
  assume "trim s = []"
  then have "\<forall>c \<in> set (dropWhile isWhiteSpace s). isWhiteSpace c"
    by (simp add: trim_def dropWhile_eq_Nil_conv)
  then have "dropWhile isWhiteSpace s = []"
    by (rule dropWhile_all_imp_Nil)
  then show "\<forall>c \<in> set s. isWhiteSpace c"
    by (simp only: dropWhile_eq_Nil_conv)
next
  assume "\<forall>c \<in> set s. isWhiteSpace c"
  then have "dropWhile isWhiteSpace s = []"
    by (simp only: dropWhile_eq_Nil_conv)
  then show "trim s = []"
    by (simp add: trim_def del: dropWhile_eq_Nil_conv)
qed

lemma includes_str_sublist: "includes_str s sub \<longleftrightarrow> sublist sub s"
  by (induction s) (simp_all add: sublist_Cons_right)

section \<open>The forecast bucketing\<close>



section \<open>The current conditions\<close>



section \<open>Bounds on the forecast\<close>




section \<open>The query state during and after a request\<close>




section \<open>Failures\<close>

text \<open>
  Claim C5. For every submission whose response has a non-success status, whatever its
  body, \<^verbatim>\<open>fetchWeather\<close> leaves the fixed message as error, no result, and in-flight false.
\<close>

theorem provider_error_reported:
  assumes "trim (city st) \<noteq> []" and "net (requestURL E st) = Response False body"
  shows "error (final st (fetchWeather E net st)) =
           ''Unable to fetch weather data. Please check the city name and try again.''
         \<and> weather (final st (fetchWeather E net st)) = None
         \<and> \<not> loading (final st (fetchWeather E net st))"
proof -
  have "tryBlock E (net (requestURL E st)) = Inl (Error ''City not found'')"
    using assms(2) by simp
  from final_failure [of st E net, OF assms(1) this] show ?thesis
    by (simp add: errorMessage_def)
qed

theorem provider_error_reported_witness:
  "trim (city st_shown) \<noteq> []
   \<and> weather st_shown \<noteq> None
   \<and> error (final st_shown (fetchWeather env_utc
        (\<lambda>url. Response False (Some (JObj [(''cod'', JStr ''404'')]))) st_shown)) =
           ''Unable to fetch weather data. Please check the city name and try again.''
   \<and> weather (final st_shown (fetchWeather env_utc
        (\<lambda>url. Response False (Some (JObj [(''cod'', JStr ''404'')]))) st_shown)) = None
   \<and> \<not> loading (final st_shown (fetchWeather env_utc
        (\<lambda>url. Response False (Some (JObj [(''cod'', JStr ''404'')]))) st_shown))"
proof -
  have "weather st_shown \<noteq> None" by (simp add: st_shown_def)
  then show ?thesis
    using trim_st_shown
      provider_error_reported [OF trim_st_shown,
        of "\<lambda>url. Response False (Some (JObj [(''cod'', JStr ''404'')]))" env_utc
        "Some (JObj [(''cod'', JStr ''404'')])"]
    by simp
qed

text \<open>
  Claim C6, as amended. For every submission in which the \<^verbatim>\<open>try\<close> block throws (the fetch
  rejects, the body is not JSON, the status is not a success, or a read during the reduction
  throws), the state left behind is the state before with the fixed message as error, no
  result and in-flight false: the same outcome for every exception, and nothing of a result
  is kept. A 200 response whose first list entry has no \<^verbatim>\<open>weather\<close> field is such a
  submission.
\<close>

theorem thrown_failure_replaces_result:
  assumes "trim (city st) \<noteq> []"
  shows "(tryBlock E (net (requestURL E st)) = Inl e \<longrightarrow>
            final st (fetchWeather E net st) =
              st\<lparr>loading := False, error := errorMessage, weather := None\<rparr>)
       \<and> (net (requestURL E st) = Response True (Some data) \<and> list0 data = Inr item
            \<and> getProp item ''weather'' = Inr JUndefined \<longrightarrow>
            final st (fetchWeather E net st) =
              st\<lparr>loading := False, error := errorMessage, weather := None\<rparr>)"
proof (intro conjI impI)
  assume "tryBlock E (net (requestURL E st)) = Inl e"
  then show "final st (fetchWeather E net st) =
      st\<lparr>loading := False, error := errorMessage, weather := None\<rparr>"
    using final_failure [of st E net] assms by simp
next
  assume a: "net (requestURL E st) = Response True (Some data) \<and> list0 data = Inr item
            \<and> getProp item ''weather'' = Inr JUndefined"
  then obtain e' where "processCurrent E data = Inl e'"
    using processCurrent_no_weather by blast
  then have "tryBlock E (net (requestURL E st)) = Inl e'"
    using a by (simp add: processResponse_def bindE_Inl)
  then show "final st (fetchWeather E net st) =
      st\<lparr>loading := False, error := errorMessage, weather := None\<rparr>"
    using final_failure [of st E net] assms by simp
qed

theorem thrown_failure_replaces_result_witness:
  "trim (city st_shown) \<noteq> []
   \<and> weather st_shown = Some prior_result
   \<and> list0 body_first_lacks_weather =
       Inr (withoutKey ''weather'' (encode (sampleAt 0 9 ''Clouds'')))
   \<and> getProp (withoutKey ''weather'' (encode (sampleAt 0 9 ''Clouds''))) ''weather'' =
       Inr JUndefined
   \<and> final st_shown (fetchWeather env_utc
        (\<lambda>url. Response True (Some body_first_lacks_weather)) st_shown) =
       \<lparr>city = ''Oslo'', weather = None, loading = False,
        error = ''Unable to fetch weather data. Please check the city name and try again.''\<rparr>"
proof -
  let ?item = "withoutKey ''weather'' (encode (sampleAt 0 9 ''Clouds''))"
  have l: "list0 body_first_lacks_weather = Inr ?item"
    by (simp add: body_first_lacks_weather_def list0_def bindE_Inr)
  have w: "getProp ?item ''weather'' = Inr JUndefined"
    by (simp add: encode_def)
  have p: "weather st_shown = Some prior_result"
    by (simp add: st_shown_def)
  show ?thesis
    using trim_st_shown l w p
      thrown_failure_replaces_result [OF trim_st_shown,
        of env_utc "\<lambda>url. Response True (Some body_first_lacks_weather)"
          TypeError body_first_lacks_weather ?item]
    by (simp add: st_shown_def errorMessage_def)
qed

text \<open>
  Claim C6 as stated fails: a 200 response whose list has an entry without the \<^verbatim>\<open>weather\<close>
  field, here the second entry, at 15:00, is not a failure when the code never reads that
  field of that entry. The query succeeds, with an empty error and a result.
\<close>

theorem unread_entry_without_weather_counterexample:
  "getProp body_later_lacks_weather ''list'' =
     Inr (JArr [encode (sampleAt 0 9 ''Clouds''),
                withoutKey ''weather'' (encode (sampleAt 0 15 ''Rain''))])
   \<and> getProp (withoutKey ''weather'' (encode (sampleAt 0 15 ''Rain''))) ''weather'' =
       Inr JUndefined
   \<and> final st_shown (fetchWeather env_utc
        (\<lambda>url. Response True (Some body_later_lacks_weather)) st_shown) =
     \<lparr>city = ''Oslo'',
      weather = Some \<lparr>data_city = JStr ''Oslo'',
                      current = \<lparr>temp = Num 19, feelsLike = Num 17, condition = JStr ''Clouds'',
                                 humidity = JNum 64, windSpeed = Num 9, pressure = JNum 1013,
                                 visibility = Num 10\<rparr>,
                      forecast = []\<rparr>,
      loading = False, error = ''''\<rparr>"
  by code_simp

section \<open>Blank input\<close>

text \<open>
  Claim C7. When the trimmed city is empty, which is when the input is empty or consists of
  white space only, \<^verbatim>\<open>fetchWeather\<close> issues no request and calls no setter: the state it
  leaves behind is the state it found, in every field.
\<close>

theorem blank_city_is_noop:
  assumes "trim (city st) = []"
  shows "(\<forall>c \<in> set (city st). isWhiteSpace c)
       \<and> requests (fetchWeather E net st) = []
       \<and> before_await (fetchWeather E net st) = []
       \<and> after_await (fetchWeather E net st) = []
       \<and> final st (fetchWeather E net st) = st"
  using assms trim_empty_iff [of "city st"]
  by (simp add: fetchWeather_def final_def)

theorem blank_city_is_noop_witness:
  "trim (city st_blank) = []
   \<and> requests (fetchWeather env_utc (\<lambda>url. Rejected) st_blank) = []
   \<and> final st_blank (fetchWeather env_utc (\<lambda>url. Rejected) st_blank) = st_blank"
proof -
  have t: "trim (city st_blank) = []" by code_simp
  show ?thesis
    using t blank_city_is_noop [OF t, of env_utc "\<lambda>url. Rejected"] by simp
qed

section \<open>The reduction keeps no state\<close>

text \<open>
  Claim C8. The result that a submission stores is a function of the environment and of
  the response body alone, whatever the state before: the loop starts from an empty forecast
  and an empty set of processed dates on every call. So a second submission, run from the
  state the first one left and answered with the same body, stores the identical result and
  leaves the identical state.
\<close>

theorem reduction_depends_on_input_only:
  assumes "trim (city st) \<noteq> []" and "net (requestURL E st) = Response True (Some data)"
  shows "weather (final st (fetchWeather E net st)) =
           (case processResponse E data of Inl e \<Rightarrow> None | Inr w \<Rightarrow> Some w)
       \<and> final (final st (fetchWeather E net st))
            (fetchWeather E net (final st (fetchWeather E net st))) =
           final st (fetchWeather E net st)"
proof (cases "processResponse E data")
  case (Inl e)
  then have t: "tryBlock E (net (requestURL E st)) = Inl e"
    using assms(2) by simp
  let ?st1 = "st\<lparr>loading := False, error := errorMessage, weather := None\<rparr>"
  have f1: "final st (fetchWeather E net st) = ?st1"
    using final_failure [of st E net, OF assms(1) t] .
  have "trim (city ?st1) \<noteq> []" using assms(1) by simp
  moreover have "tryBlock E (net (requestURL E ?st1)) = Inl e"
    using t by (simp add: requestURL_def)
  ultimately have "final ?st1 (fetchWeather E net ?st1) = ?st1"
    using final_failure [of ?st1 E net e] by simp
  then show ?thesis using f1 Inl by simp
next
  case (Inr w)
  then have t: "tryBlock E (net (requestURL E st)) = Inr w"
    using assms(2) by simp
  let ?st1 = "st\<lparr>loading := False, error := '''', weather := Some w\<rparr>"
  have f1: "final st (fetchWeather E net st) = ?st1"
    using final_success [of st E net, OF assms(1) t] .
  have "trim (city ?st1) \<noteq> []" using assms(1) by simp
  moreover have "tryBlock E (net (requestURL E ?st1)) = Inr w"
    using t by (simp add: requestURL_def)
  ultimately have "final ?st1 (fetchWeather E net ?st1) = ?st1"
    using final_success [of ?st1 E net w] by simp
  then show ?thesis using f1 Inr by simp
qed

theorem reduction_depends_on_input_only_witness:
  "trim (city st_shown) \<noteq> []
   \<and> weather (final st_shown (fetchWeather env_utc
        (\<lambda>url. Response True (Some (encodeBody ''Oslo'' feed))) st_shown)) \<noteq> weather st_shown
   \<and> final (final st_shown (fetchWeather env_utc
               (\<lambda>url. Response True (Some (encodeBody ''Oslo'' feed))) st_shown))
       (fetchWeather env_utc (\<lambda>url. Response True (Some (encodeBody ''Oslo'' feed)))
         (final st_shown (fetchWeather env_utc
               (\<lambda>url. Response True (Some (encodeBody ''Oslo'' feed))) st_shown))) =
     final st_shown (fetchWeather env_utc
        (\<lambda>url. Response True (Some (encodeBody ''Oslo'' feed))) st_shown)"
proof -
  have "weather (final st_shown (fetchWeather env_utc
          (\<lambda>url. Response True (Some (encodeBody ''Oslo'' feed))) st_shown)) \<noteq> weather st_shown"
    by code_simp
  then show ?thesis
    using trim_st_shown
      reduction_depends_on_input_only [OF trim_st_shown,
        of "\<lambda>url. Response True (Some (encodeBody ''Oslo'' feed))" env_utc
          "encodeBody ''Oslo'' feed", OF refl]
    by simp
qed

section \<open>An empty list\<close>

text \<open>
  Claim C9. When the response is a success whose \<^verbatim>\<open>list\<close> is an empty array, reading the
  first sample's fields throws a \<^verbatim>\<open>TypeError\<close> inside the \<^verbatim>\<open>try\<close> block, and the call ends
  like any other failure: the fixed message as error, no result, in-flight false.
\<close>

theorem empty_list_is_caught:
  assumes "trim (city st) \<noteq> []"
    and "net (requestURL E st) = Response True (Some data)"
    and "getProp data ''list'' = Inr (JArr [])"
  shows "tryBlock E (net (requestURL E st)) = Inl TypeError
         \<and> final st (fetchWeather E net st) =
             st\<lparr>loading := False, error := errorMessage, weather := None\<rparr>"
proof -
  have "processResponse E data = Inl TypeError"
    using processCurrent_undefined [OF list0_empty [OF assms(3)]]
    by (simp add: processResponse_def bindE_Inl)
  then have "tryBlock E (net (requestURL E st)) = Inl TypeError"
    using assms(2) by simp
  with final_failure [of st E net, OF assms(1)] show ?thesis by simp
qed

theorem empty_list_is_caught_witness:
  "trim (city st_shown) \<noteq> []
   \<and> getProp (JObj [(''cod'', JStr ''200''), (''list'', JArr []),
                    (''city'', JObj [(''name'', JStr ''Oslo'')])]) ''list'' = Inr (JArr [])
   \<and> final st_shown (fetchWeather env_utc
        (\<lambda>url. Response True (Some (JObj [(''cod'', JStr ''200''), (''list'', JArr []),
                                         (''city'', JObj [(''name'', JStr ''Oslo'')])])))
        st_shown) =
       \<lparr>city = ''Oslo'', weather = None, loading = False,
        error = ''Unable to fetch weather data. Please check the city name and try again.''\<rparr>"
proof -
  let ?data = "JObj [(''cod'', JStr ''200''), (''list'', JArr []),
                     (''city'', JObj [(''name'', JStr ''Oslo'')])]"
  have l: "getProp ?data ''list'' = Inr (JArr [])" by simp
  show ?thesis
    using trim_st_shown l
      empty_list_is_caught [OF trim_st_shown, of "\<lambda>url. Response True (Some ?data)"
        env_utc ?data, OF refl l]
    by (simp add: st_shown_def errorMessage_def)
qed

section \<open>The icon of a condition\<close>

text \<open>
  Claim C10. \<^verbatim>\<open>WeatherIcon\<close> maps every condition string to one of four icons, by tests on
  the lower-cased string in a fixed order: the rain icon when it contains \<^verbatim>\<open>rain\<close> or
  \<^verbatim>\<open>drizzle\<close>, else the cloud icon when it contains \<^verbatim>\<open>cloud\<close>, else the snow icon when
  it contains \<^verbatim>\<open>snow\<close>, else the sun. (\<open>sublist u v\<close> says that \<open>v\<close> is \<open>p @ u @ q\<close> for
  some \<open>p\<close> and \<open>q\<close>.)
\<close>

theorem WeatherIcon_precedence:
  "WeatherIcon c =
     (if sublist ''rain'' (toLowerCase c) \<or> sublist ''drizzle'' (toLowerCase c) then CloudRain
      else if sublist ''cloud'' (toLowerCase c) then Cloud
      else if sublist ''snow'' (toLowerCase c) then CloudSnow
      else Sun)"
  by (simp add: WeatherIcon_def Let_def includes_str_sublist)

theorem WeatherIcon_precedence_witness:
  "WeatherIcon ''Light RAIN and snow'' = CloudRain
   \<and> WeatherIcon ''Drizzle'' = CloudRain
   \<and> WeatherIcon ''Snow, clouds'' = Cloud
   \<and> WeatherIcon ''SNOW'' = CloudSnow
   \<and> WeatherIcon ''Clear'' = Sun
   \<and> WeatherIcon '''' = Sun"
proof -
  have "sublist ''rain'' (toLowerCase ''Light RAIN and snow'')"
    "sublist ''drizzle'' (toLowerCase ''Drizzle'')"
    "\<not> sublist ''rain'' (toLowerCase ''Snow, clouds'')"
    "\<not> sublist ''drizzle'' (toLowerCase ''Snow, clouds'')"
    "sublist ''cloud'' (toLowerCase ''Snow, clouds'')"
    "\<not> sublist ''rain'' (toLowerCase ''SNOW'')"
    "\<not> sublist ''drizzle'' (toLowerCase ''SNOW'')"
    "\<not> sublist ''cloud'' (toLowerCase ''SNOW'')"
    "sublist ''snow'' (toLowerCase ''SNOW'')"
    "\<not> sublist ''rain'' (toLowerCase ''Clear'')"
    "\<not> sublist ''drizzle'' (toLowerCase ''Clear'')"
    "\<not> sublist ''cloud'' (toLowerCase ''Clear'')"
    "\<not> sublist ''snow'' (toLowerCase ''Clear'')"
    "toLowerCase '''' = ''''"
    by code_simp+
  then show ?thesis
    using WeatherIcon_precedence [of "''Light RAIN and snow''"]
      WeatherIcon_precedence [of "''Drizzle''"]
      WeatherIcon_precedence [of "''Snow, clouds''"]
      WeatherIcon_precedence [of "''SNOW''"]
      WeatherIcon_precedence [of "''Clear''"]
      WeatherIcon_precedence [of "''''"]
    by simp
qed

end
